theory Spec2Isabelle
  imports Main "HOL-Library.Word" "HOL-Library.Sublist"
begin

section \<open>The yetty Python plugin: interpreter host and script layer\<close>

text \<open>
  The development follows \<^verbatim>\<open>src/yetty/plugins/python/python.cpp\<close>. The plugin embeds a
  CPython interpreter, runs code with \<^verbatim>\<open>sys.stdout\<close> and \<^verbatim>\<open>sys.stderr\<close> redirected
  into a \<^verbatim>\<open>StringIO\<close>, and a layer composites the script's off-screen texture with
  WebGPU. CPython, the file system and WebGPU are outside the repository: their answers
  enter the model as values the functions are given, and the calls the code makes on
  them leave the model as a trace.
\<close>

subsection \<open>Strings and results\<close>

text \<open>
  \<^verbatim>\<open>std::string\<close> is a byte string. A \<^verbatim>\<open>const char*\<close> handed to
  \<^verbatim>\<open>std::string\<close> (or \<^verbatim>\<open>c_str()\<close> handed to a C API) is read up to its first NUL byte.
\<close>

definition c_str :: "string \<Rightarrow> string" where
  "c_str s = takeWhile (\<lambda>c. c \<noteq> CHR 0x00) s"

text \<open>
  A Python \<^verbatim>\<open>str\<close> is a sequence of code points, each below \<open>0x110000\<close>.
  \<^verbatim>\<open>PyUnicode_AsUTF8\<close> gives its UTF-8 bytes, and a null pointer when the text
  holds a lone surrogate, which UTF-8 cannot encode.
\<close>

definition utf8_char :: "nat \<Rightarrow> string option" where
  "utf8_char c =
     (if c < 0x80 then Some [char_of c]
      else if c < 0x800 then Some [char_of (0xC0 + c div 0x40), char_of (0x80 + c mod 0x40)]
      else if 0xD800 \<le> c \<and> c < 0xE000 then None
      else if c < 0x10000 then
        Some [char_of (0xE0 + c div 0x1000), char_of (0x80 + c div 0x40 mod 0x40),
              char_of (0x80 + c mod 0x40)]
      else if c < 0x110000 then
        Some [char_of (0xF0 + c div 0x40000), char_of (0x80 + c div 0x1000 mod 0x40),
              char_of (0x80 + c div 0x40 mod 0x40), char_of (0x80 + c mod 0x40)]
      else None)"

fun utf8 :: "nat list \<Rightarrow> string option" where
  "utf8 [] = Some []"
| "utf8 (c # cs) =
     (case utf8_char c of
        None \<Rightarrow> None
      | Some b \<Rightarrow> (case utf8 cs of None \<Rightarrow> None | Some bs \<Rightarrow> Some (b @ bs)))"

text \<open>
  \<^verbatim>\<open>Result<T>\<close> of yetty: \<^verbatim>\<open>Ok(v)\<close> is \<open>Inr v\<close>, \<^verbatim>\<open>Err<T>(msg)\<close> is
  \<open>Inl (Error msg None)\<close> and \<^verbatim>\<open>Err<T>(msg, res)\<close>, which chains the error of
  \<^verbatim>\<open>res\<close> as the cause, is \<open>Inl (Error msg (Some e))\<close>. The header that renders an
  error as text (\<^verbatim>\<open>error().message()\<close>) is not part of the sources, so the functions
  that call it take the rendering as the argument \<open>message\<close>.
\<close>

datatype error = Error string "error option"

text \<open>
  The outermost message of an error (the rendering used in the concrete runs below),
  and all the messages of an error, outermost first.
\<close>

fun error_text :: "error \<Rightarrow> string" where
  "error_text (Error m c) = m"

fun error_chain :: "error \<Rightarrow> string list" where
  "error_chain (Error m None) = [m]"
| "error_chain (Error m (Some e)) = m # error_chain e"

text \<open>
  A call that runs Python code need not come back: the code may never end, and the
  process may die inside the call. A call either returns a value, or the process
  crashes in it, or it hangs.
\<close>

datatype 'a ending = Returns 'a | Crashes | Hangs

subsection \<open>The embedded interpreter\<close>

text \<open>
  What one \<^verbatim>\<open>PyRun_String\<close> of a chunk of code does, when it comes back:
  \<^item> \<open>writes\<close>: the text the code writes through \<^verbatim>\<open>sys.stdout\<close> and
    \<^verbatim>\<open>sys.stderr\<close> while it runs, in the order written;
  \<^item> \<open>direct\<close>: what the code sends to the process console without going through
    these two objects (\<^verbatim>\<open>os.write(1, ...)\<close>, a child process, native code);
  \<^item> \<open>raised\<close>: \<open>None\<close> when the run returned a result; when it raised, the text
    that \<^verbatim>\<open>PyErr_Print\<close> prints for the error pending at the end of
    \<^verbatim>\<open>execute\<close>;
  \<^item> \<open>sink_open\<close>: whether the object the code was given as \<^verbatim>\<open>sys.stdout\<close> is
    still open after the run (\<^verbatim>\<open>getvalue()\<close> of a closed \<^verbatim>\<open>StringIO\<close> raises).
\<close>

datatype stream = Stdout | Stderr

record py_outcome =
  writes :: "(stream \<times> nat list) list"
  direct :: "string list"
  raised :: "string option"
  sink_open :: bool

text \<open>
  The interpreter is a process: it answers whether the modules \<^verbatim>\<open>sys\<close> and
  \<^verbatim>\<open>io\<close> import, \<open>observe\<close> gives the outcome of running a chunk in the persistent
  \<^verbatim>\<open>__main__\<close> namespace (\<open>None\<close> when the run never comes back), and \<open>advance\<close>
  is the interpreter afterwards.
\<close>

codatatype interp =
  Interp (imports_sys: bool) (imports_io: bool)
         (observe: "string \<Rightarrow> py_outcome option") (advance: "string \<Rightarrow> interp")


definition written :: "py_outcome \<Rightarrow> nat list" where
  "written oc = concat (map snd (writes oc))"

subsection \<open>PythonPlugin\<close>

record PythonPlugin =
  plugin_initialized :: bool
  py_initialized :: bool
  main_dict :: interp

text \<open>
  \<^verbatim>\<open>PythonPlugin::execute\<close>. Both \<^verbatim>\<open>sys.stdout\<close> and \<^verbatim>\<open>sys.stderr\<close> are set to
  the same \<^verbatim>\<open>StringIO\<close> before the code runs, so the sink holds every write in order;
  nothing else of the process is redirected. The steps after the run follow the
  source:
  \<^item> \<open>output_obj\<close> is the result of calling \<^verbatim>\<open>getvalue\<close>. When the run raised, the
    call is made with that exception still pending (nothing clears it before
    \<^verbatim>\<open>PyErr_Clear\<close> at the end), and CPython's check of a call result then drops
    the result and gives null, with a \<^verbatim>\<open>SystemError\<close> chained to the pending
    exception; a closed sink gives null as well.
  \<^item> \<open>output\<close> stays empty for a null \<open>output_obj\<close>; otherwise it is assigned the
    \<^verbatim>\<open>const char*\<close> of \<^verbatim>\<open>PyUnicode_AsUTF8\<close>, which is not checked: a null pointer
    there ends the process.
  \<^item> the streams are restored before \<^verbatim>\<open>PyErr_Print\<close>, so the trace goes to the
    process console.
  The value is what the call returns, the plugin afterwards and the text that
  reached the process console during the call.
\<close>

definition execute :: "PythonPlugin \<Rightarrow> string
    \<Rightarrow> ((error + string) \<times> PythonPlugin \<times> string list) ending" where
  "execute p code =
     (if \<not> py_initialized p then Returns (Inl (Error ''Python not initialized'' None), p, [])
      else if \<not> imports_sys (main_dict p) then
        Returns (Inl (Error ''Failed to import sys module'' None), p, [])
      else if \<not> imports_io (main_dict p) then
        Returns (Inl (Error ''Failed to import io module'' None), p, [])
      else case observe (main_dict p) (c_str code) of
        None \<Rightarrow> Hangs
      | Some oc \<Rightarrow>
          (let p' = p\<lparr>main_dict := advance (main_dict p) (c_str code)\<rparr>;
               output_obj = (if raised oc = None \<and> sink_open oc then Some (written oc) else None)
           in case (case output_obj of
                      None \<Rightarrow> Some []
                    | Some text \<Rightarrow> map_option c_str (utf8 text)) of
                None \<Rightarrow> Crashes
              | Some output \<Rightarrow>
                  (case raised oc of
                     Some trace \<Rightarrow>
                       Returns (Inl (Error (''Python execution error: '' @ output) None), p',
                                direct oc @ [trace])
                   | None \<Rightarrow> Returns (Inr output, p', direct oc))))"

text \<open>\<^verbatim>\<open>PythonPlugin::runFile\<close>; \<open>fs path\<close> is the content of the file when it opens.\<close>

definition runFile :: "(string \<Rightarrow> string option) \<Rightarrow> PythonPlugin \<Rightarrow> string
    \<Rightarrow> ((error + unit) \<times> PythonPlugin \<times> string list) ending" where
  "runFile fs p path =
     (case fs path of
        None \<Rightarrow> Returns (Inl (Error (''Failed to open Python file: '' @ path) None), p, [])
      | Some content \<Rightarrow>
          (case execute p content of
             Returns (Inl e, p', console) \<Rightarrow>
               Returns (Inl (Error ''Failed to execute Python file'' (Some e)), p', console)
           | Returns (Inr out, p', console) \<Rightarrow> Returns (Inr (), p', console)
           | Crashes \<Rightarrow> Crashes
           | Hangs \<Rightarrow> Hangs))"

subsection \<open>A scripted interpreter for concrete runs\<close>

text \<open>
  A stand-in for CPython that knows what CPython does with a few programs and with
  the empty chunk; it answers every other chunk like the empty one, and no statement
  below runs one. Its state is whether the name \<^verbatim>\<open>hi\<close> has been assigned. It is
  used only to evaluate the model at concrete inputs.
\<close>

definition prog_print42 :: string where
  "prog_print42 = ''x = 21\<newline>print(x*2)\<newline>''"

definition prog_both_streams :: string where
  "prog_both_streams = ''import sys\<newline>sys.stderr.write(\"e\")\<newline>print(\"a\")\<newline>''"

definition prog_os_write :: string where
  "prog_os_write = ''import os\<newline>os.write(1, b\"x\")\<newline>''"

definition prog_print_then_raise :: string where
  "prog_print_then_raise = ''print(\"a\")\<newline>raise ValueError(\"x\")\<newline>''"

definition prog_surrogate :: string where
  "prog_surrogate = ''print(chr(0xDC80))\<newline>''"

definition prog_loop :: string where
  "prog_loop = ''while True:\<newline>    pass\<newline>''"

definition prog_assign_hi :: string where
  "prog_assign_hi = ''hi = 1\<newline>''"

text \<open>
  What \<^verbatim>\<open>PyErr_Print\<close> prints after a raising run: the trace of the exception of
  the code, then the \<^verbatim>\<open>SystemError\<close> of the read-back (the address in it varies).
\<close>

definition read_back_error :: string where
  "read_back_error = ''\<newline>The above exception was the direct cause of the following exception:\<newline>\<newline>SystemError: <built-in method getvalue of _io.StringIO object at 0x7f3c5a1b2e60> returned a result with an exception set\<newline>''"

definition trace_hi :: string where
  "trace_hi = ''Traceback (most recent call last):\<newline>  File \"<string>\", line 1, in <module>\<newline>NameError: name 'hi' is not defined\<newline>'' @ read_back_error"

definition trace_value_error :: string where
  "trace_value_error = ''Traceback (most recent call last):\<newline>  File \"<string>\", line 2, in <module>\<newline>ValueError: x\<newline>'' @ read_back_error"

definition silent :: py_outcome where
  "silent = \<lparr>writes = [], direct = [], raised = None, sink_open = True\<rparr>"

definition cpython_says :: "bool \<Rightarrow> string \<Rightarrow> py_outcome option" where
  "cpython_says hi_assigned code =
     (if code = prog_print42 then Some (silent\<lparr>writes := [(Stdout, [52, 50]), (Stdout, [10])]\<rparr>)
      else if code = prog_both_streams then
        Some (silent\<lparr>writes := [(Stderr, [101]), (Stdout, [97]), (Stdout, [10])]\<rparr>)
      else if code = prog_os_write then Some (silent\<lparr>direct := [''x'']\<rparr>)
      else if code = prog_print_then_raise then
        Some (silent\<lparr>writes := [(Stdout, [97]), (Stdout, [10])], raised := Some trace_value_error\<rparr>)
      else if code = prog_surrogate then
        Some (silent\<lparr>writes := [(Stdout, [0xDC80]), (Stdout, [10])]\<rparr>)
      else if code = prog_loop then None
      else if code = ''hi'' \<and> \<not> hi_assigned then Some (silent\<lparr>raised := Some trace_hi\<rparr>)
      else Some silent)"

primcorec scripted :: "bool \<Rightarrow> interp" where
  "imports_sys (scripted hi_assigned) = True"
| "imports_io (scripted hi_assigned) = True"
| "observe (scripted hi_assigned) = cpython_says hi_assigned"
| "advance (scripted hi_assigned) = (\<lambda>code. scripted (hi_assigned \<or> code = prog_assign_hi))"

definition plugin0 :: PythonPlugin where
  "plugin0 = \<lparr>plugin_initialized = True, py_initialized = True, main_dict = scripted False\<rparr>"

subsection \<open>PythonLayer\<close>

text \<open>
  GPU objects and Python objects are handles; \<open>None\<close> is the null pointer. The
  members of \<^verbatim>\<open>PythonLayer\<close> are those \<^verbatim>\<open>python.cpp\<close> reads and writes (the class
  declaration is not part of the sources); the plugin that \<^verbatim>\<open>_plugin\<close> points to is
  passed to the functions that call it. The functions that run Python code through
  the plugin end the way \<open>execute\<close> ends.
\<close>

type_synonym handle = "nat option"

record PythonLayer =
  payload :: string
  script_path :: string
  layer_output :: string
  input_buffer :: string
  layer_initialized :: bool
  failed :: bool
  visible :: bool
  wgpu_handles_set :: bool
  pygfx_initialized :: bool
  pygfx_module :: handle
  render_frame_func :: handle
  blit_initialized :: bool
  blit_bind_group :: handle
  blit_pipeline :: handle
  blit_sampler :: handle

text \<open>The calls a layer makes on WebGPU, on the bridge and on Python objects.\<close>

datatype call =
    SetHandles
  | BindGroupRelease nat
  | RenderPipelineRelease nat
  | SamplerRelease nat
  | ShaderModuleRelease nat
  | PipelineLayoutRelease handle
  | BindGroupLayoutRelease handle
  | CommandEncoderRelease nat
  | SetPipeline nat handle
  | SetBindGroup nat nat
  | Draw nat nat nat nat nat
  | PassEnd nat
  | PassRelease nat
  | QueueSubmit nat
  | CommandBufferRelease nat
  | PyCall nat
  | PyDecRef nat
  | PyErrPrint

text \<open>
  What WebGPU and the bridge answer during one frame: the off-screen view of
  \<^verbatim>\<open>yetty_wgpu_get_render_texture_view\<close>, the object each creation call returns
  (null on failure) and the surface view of \<^verbatim>\<open>ctx.getCurrentTextureView()\<close>
  (\<open>None\<close> when that result is an error).
\<close>

record wgpu_env =
  render_texture_view :: handle
  new_sampler :: handle
  new_shader_module :: handle
  new_bind_group_layout :: handle
  new_pipeline_layout :: handle
  new_render_pipeline :: handle
  pipeline_bind_group_layout :: handle
  new_bind_group :: handle
  new_command_encoder :: handle
  current_texture_view :: handle
  new_render_pass :: handle
  finished_commands :: handle

text \<open>
  What the interpreter answers to a layer's direct calls: whether the plugin is
  still alive (\<^verbatim>\<open>_plugin && _plugin->isInitialized()\<close>), the module
  \<^verbatim>\<open>yetty_pygfx\<close>, its attributes \<^verbatim>\<open>render_frame\<close> and \<^verbatim>\<open>cleanup\<close>, and the
  object each call returns (null when it raises) with its truth value.
\<close>

record py_env =
  plugin_alive :: bool
  import_pygfx :: handle
  attr_render_frame :: handle
  call_render_frame :: "(nat \<times> bool) option"
  attr_cleanup :: handle
  call_cleanup :: handle

text \<open>\<^verbatim>\<open>PythonLayer::init\<close>.\<close>

definition init :: "(error \<Rightarrow> string) \<Rightarrow> (string \<Rightarrow> string option) \<Rightarrow> PythonPlugin \<Rightarrow> PythonLayer
    \<Rightarrow> string \<Rightarrow> ((error + unit) \<times> PythonLayer \<times> PythonPlugin \<times> string list) ending" where
  "init message fs p l pl =
     (let l1 = l\<lparr>payload := pl\<rparr> in
      if pl \<noteq> [] then
        (if fs pl \<noteq> None then
           (let l2 = l1\<lparr>script_path := pl\<rparr> in
            case runFile fs p (script_path l2) of
              Returns (Inl e, p', console) \<Rightarrow>
                Returns (Inr (), l2\<lparr>layer_output := ''Error: '' @ message e,
                                    layer_initialized := True\<rparr>, p', console)
            | Returns (Inr u, p', console) \<Rightarrow>
                Returns (Inr (), l2\<lparr>layer_output := ''Script executed: '' @ script_path l2,
                                    layer_initialized := True\<rparr>, p', console)
            | Crashes \<Rightarrow> Crashes
            | Hangs \<Rightarrow> Hangs)
         else
           (case execute p pl of
              Returns (Inr out, p', console) \<Rightarrow>
                Returns (Inr (), l1\<lparr>layer_output := out, layer_initialized := True\<rparr>, p', console)
            | Returns (Inl e, p', console) \<Rightarrow>
                Returns (Inr (), l1\<lparr>layer_output := ''Error: '' @ message e,
                                    layer_initialized := True\<rparr>, p', console)
            | Crashes \<Rightarrow> Crashes
            | Hangs \<Rightarrow> Hangs))
      else Returns (Inr (), l1\<lparr>layer_initialized := True\<rparr>, p, []))"


text \<open>\<^verbatim>\<open>PythonLayer::dispose\<close>.\<close>

definition dispose :: "py_env \<Rightarrow> PythonLayer \<Rightarrow> (error + unit) \<times> PythonLayer \<times> call list" where
  "dispose py l =
     (let t1 = (case blit_bind_group l of Some h \<Rightarrow> [BindGroupRelease h] | None \<Rightarrow> []);
          t2 = (case blit_pipeline l of Some h \<Rightarrow> [RenderPipelineRelease h] | None \<Rightarrow> []);
          t3 = (case blit_sampler l of Some h \<Rightarrow> [SamplerRelease h] | None \<Rightarrow> []);
          l1 = l\<lparr>blit_bind_group := None, blit_pipeline := None, blit_sampler := None,
                 blit_initialized := False\<rparr>;
          t4 = (if plugin_alive py then
                  (case render_frame_func l1 of Some f \<Rightarrow> [PyDecRef f] | None \<Rightarrow> []) @
                  (case pygfx_module l1 of
                     Some m \<Rightarrow>
                       (case attr_cleanup py of
                          Some c \<Rightarrow> [PyCall c] @
                                    (case call_cleanup py of Some r \<Rightarrow> [PyDecRef r] | None \<Rightarrow> []) @
                                    [PyDecRef c]
                        | None \<Rightarrow> []) @ [PyDecRef m]
                   | None \<Rightarrow> [])
                else []);
          l2 = l1\<lparr>render_frame_func := None, pygfx_module := None\<rparr>
      in (Inr (), l2\<lparr>pygfx_initialized := False, wgpu_handles_set := False,
                       layer_initialized := False\<rparr>, t1 @ t2 @ t3 @ t4))"

text \<open>\<^verbatim>\<open>PythonLayer::renderPygfx\<close>.\<close>

definition renderPygfx :: "py_env \<Rightarrow> PythonLayer \<Rightarrow> bool \<times> call list" where
  "renderPygfx py l =
     (if \<not> pygfx_initialized l \<or> render_frame_func l = None then (False, [])
      else case render_frame_func l of
        None \<Rightarrow> (False, [])
      | Some f \<Rightarrow>
          (case call_render_frame py of
             None \<Rightarrow> (False, [PyCall f, PyErrPrint])
           | Some (r, success) \<Rightarrow> (success, [PyCall f, PyDecRef r])))"

text \<open>
  \<^verbatim>\<open>PythonLayer::createBlitPipeline\<close>. The descriptors (sampler modes, the WGSL
  source, blending) are constants that no branch depends on; the model keeps the
  creations, the checks and the releases.
\<close>

definition createBlitPipeline :: "wgpu_env \<Rightarrow> PythonLayer \<Rightarrow> bool \<times> PythonLayer \<times> call list" where
  "createBlitPipeline gpu l =
     (if blit_initialized l then (True, l, [])
      else
        let l1 = l\<lparr>blit_sampler := new_sampler gpu\<rparr> in
        if blit_sampler l1 = None then (False, l1, [])
        else case new_shader_module gpu of
          None \<Rightarrow> (False, l1, [])
        | Some shader \<Rightarrow>
            (let l2 = l1\<lparr>blit_pipeline := new_render_pipeline gpu\<rparr>;
                 t = [ShaderModuleRelease shader, PipelineLayoutRelease (new_pipeline_layout gpu),
                      BindGroupLayoutRelease (new_bind_group_layout gpu)]
             in if blit_pipeline l2 = None then (False, l2, t)
                else (True, l2\<lparr>blit_initialized := True\<rparr>, t)))"

text \<open>\<^verbatim>\<open>PythonLayer::blitRenderTexture\<close>.\<close>

definition blitRenderTexture :: "wgpu_env \<Rightarrow> PythonLayer \<Rightarrow> bool \<times> PythonLayer \<times> call list" where
  "blitRenderTexture gpu l =
     (case render_texture_view gpu of
        None \<Rightarrow> (False, l, [])
      | Some texView \<Rightarrow>
          (case (if \<not> blit_initialized l then createBlitPipeline gpu l else (True, l, [])) of
             (False, l1, t1) \<Rightarrow> (False, l1, t1)
           | (True, l1, t1) \<Rightarrow>
               (let t2 = t1 @ (case blit_bind_group l1 of Some h \<Rightarrow> [BindGroupRelease h] | None \<Rightarrow> []);
                    l2 = l1\<lparr>blit_bind_group := new_bind_group gpu\<rparr>;
                    t3 = t2 @ [BindGroupLayoutRelease (pipeline_bind_group_layout gpu)]
                in case blit_bind_group l2 of
                     None \<Rightarrow> (False, l2, t3)
                   | Some bg \<Rightarrow>
                       (case new_command_encoder gpu of
                          None \<Rightarrow> (False, l2, t3)
                        | Some encoder \<Rightarrow>
                            (case current_texture_view gpu of
                               None \<Rightarrow> (False, l2, t3 @ [CommandEncoderRelease encoder])
                             | Some surfaceView \<Rightarrow>
                                 (case new_render_pass gpu of
                                    None \<Rightarrow> (False, l2, t3 @ [CommandEncoderRelease encoder])
                                  | Some pass \<Rightarrow>
                                      (True, l2,
                                       t3 @ [SetPipeline pass (blit_pipeline l2), SetBindGroup pass bg,
                                             Draw pass 6 1 0 0, PassEnd pass, PassRelease pass] @
                                       (case finished_commands gpu of
                                          Some cmd \<Rightarrow> [QueueSubmit cmd, CommandBufferRelease cmd]
                                        | None \<Rightarrow> []) @
                                       [CommandEncoderRelease encoder])))))))"

text \<open>
  \<^verbatim>\<open>PythonLayer::render\<close>. The results of \<^verbatim>\<open>renderPygfx\<close> and
  \<^verbatim>\<open>blitRenderTexture\<close> only feed a log line; the function returns \<^verbatim>\<open>Ok()\<close>
  whatever they are.
\<close>

definition render :: "py_env \<Rightarrow> wgpu_env \<Rightarrow> PythonLayer \<Rightarrow> (error + unit) \<times> PythonLayer \<times> call list" where
  "render py gpu l =
     (if failed l then (Inl (Error ''PythonLayer already failed'' None), l, [])
      else if \<not> visible l then (Inr (), l, [])
      else
        let t1 = (if \<not> wgpu_handles_set l then [SetHandles] else []);
            l1 = l\<lparr>wgpu_handles_set := True\<rparr>;
            l2 = (if render_frame_func l1 = None then
                    (case import_pygfx py of
                       None \<Rightarrow> l1\<lparr>pygfx_module := None\<rparr>
                     | Some m \<Rightarrow>
                         (case attr_render_frame py of
                            None \<Rightarrow> l1\<lparr>pygfx_module := Some m, render_frame_func := None\<rparr>
                          | Some f \<Rightarrow> l1\<lparr>pygfx_module := Some m, render_frame_func := Some f,
                                          pygfx_initialized := True\<rparr>))
                  else l1)
        in if pygfx_initialized l2 \<and> render_frame_func l2 \<noteq> None then
             (case renderPygfx py l2 of
                (pygfx_ok, t2) \<Rightarrow>
                  (case blitRenderTexture gpu l2 of
                     (blit_ok, l3, t3) \<Rightarrow> (Inr (), l3, t1 @ t2 @ t3)))
           else (Inr (), l2, t1))"

text \<open>
  \<^verbatim>\<open>PythonLayer::onKey\<close> (\<^verbatim>\<open>int\<close> arguments; 1 is \<^verbatim>\<open>GLFW_PRESS\<close>, 257
  \<^verbatim>\<open>GLFW_KEY_ENTER\<close>, 259 \<^verbatim>\<open>GLFW_KEY_BACKSPACE\<close>) and \<^verbatim>\<open>PythonLayer::onChar\<close>
  (\<^verbatim>\<open>unsigned int\<close> code point, cast to \<^verbatim>\<open>char\<close>).
\<close>

definition onKey :: "(error \<Rightarrow> string) \<Rightarrow> PythonPlugin \<Rightarrow> PythonLayer \<Rightarrow> int \<Rightarrow> int \<Rightarrow> int \<Rightarrow> int
    \<Rightarrow> (bool \<times> PythonLayer \<times> PythonPlugin \<times> string list) ending" where
  "onKey message p l key scancode action mods =
     (if action \<noteq> 1 then Returns (False, l, p, [])
      else if key = 257 \<and> input_buffer l \<noteq> [] then
        (case execute p (input_buffer l) of
           Returns (Inr out, p', console) \<Rightarrow>
             Returns (True, l\<lparr>layer_output := layer_output l @ ''>>> '' @ input_buffer l @ ''\<newline>'' @ out,
                              input_buffer := []\<rparr>, p', console)
         | Returns (Inl e, p', console) \<Rightarrow>
             Returns (True, l\<lparr>layer_output := layer_output l @ ''>>> '' @ input_buffer l @
                                                ''\<newline>Error: '' @ message e @ ''\<newline>'',
                              input_buffer := []\<rparr>, p', console)
         | Crashes \<Rightarrow> Crashes
         | Hangs \<Rightarrow> Hangs)
      else if key = 259 \<and> input_buffer l \<noteq> [] then
        Returns (True, l\<lparr>input_buffer := butlast (input_buffer l)\<rparr>, p, [])
      else Returns (False, l, p, []))"

definition onChar :: "PythonLayer \<Rightarrow> 32 word \<Rightarrow> bool \<times> PythonLayer" where
  "onChar l codepoint =
     (if codepoint < 128 then (True, l\<lparr>input_buffer := input_buffer l @ [char_of (unat codepoint)]\<rparr>)
      else (False, l))"

text \<open>Printable ASCII: the codes from space to tilde.\<close>

definition printable_ascii :: "32 word \<Rightarrow> bool" where
  "printable_ascii codepoint = (32 \<le> codepoint \<and> codepoint \<le> 126)"

subsection \<open>Concrete layers, files and frames\<close>

definition layer0 :: PythonLayer where
  "layer0 = \<lparr>payload = [], script_path = [], layer_output = [], input_buffer = [],
     layer_initialized = False, failed = False, visible = True, wgpu_handles_set = False,
     pygfx_initialized = False, pygfx_module = None, render_frame_func = None,
     blit_initialized = False, blit_bind_group = None, blit_pipeline = None, blit_sampler = None\<rparr>"

definition layer_blitting :: PythonLayer where
  "layer_blitting = layer0\<lparr>blit_initialized := True, blit_pipeline := Some 5, blit_sampler := Some 1,
     blit_bind_group := Some 7\<rparr>"

definition py_idle :: py_env where
  "py_idle = \<lparr>plugin_alive = True, import_pygfx = None, attr_render_frame = None,
     call_render_frame = None, attr_cleanup = None, call_cleanup = None\<rparr>"

text \<open>A frame before the script has produced a texture, and one after.\<close>

definition gpu_idle :: wgpu_env where
  "gpu_idle = \<lparr>render_texture_view = None, new_sampler = Some 1, new_shader_module = Some 2,
     new_bind_group_layout = Some 3, new_pipeline_layout = Some 4, new_render_pipeline = Some 5,
     pipeline_bind_group_layout = Some 6, new_bind_group = Some 7, new_command_encoder = Some 8,
     current_texture_view = Some 9, new_render_pass = Some 10, finished_commands = Some 11\<rparr>"

definition gpu_ready :: wgpu_env where
  "gpu_ready = gpu_idle\<lparr>render_texture_view := Some 20\<rparr>"

text \<open>
  A file system with the one script \<^verbatim>\<open>a.py\<close>, whose content is \<^verbatim>\<open>hi\<close>, an empty
  one, and one with a script that loops for ever.
\<close>

definition fs_script :: "string \<Rightarrow> string option" where
  "fs_script path = (if path = ''a.py'' then Some ''hi'' else None)"

definition fs_empty :: "string \<Rightarrow> string option" where
  "fs_empty path = None"

definition fs_script_loop :: "string \<Rightarrow> string option" where
  "fs_script_loop path = (if path = ''loop.py'' then Some prog_loop else None)"

text \<open>The plugin after its interpreter was shut down, and after \<^verbatim>\<open>hi\<close> was assigned.\<close>

definition plugin_off :: PythonPlugin where
  "plugin_off = plugin0\<lparr>py_initialized := False\<rparr>"

definition plugin_hi :: PythonPlugin where
  "plugin_hi = plugin0\<lparr>main_dict := scripted True\<rparr>"

subsection \<open>Notions the properties are stated with\<close>

text \<open>An error mentions a path when one of the messages of its chain contains it.\<close>

definition mentions :: "string \<Rightarrow> error \<Rightarrow> bool" where
  "mentions path e = list_ex (sublist path) (error_chain e)"

text \<open>
  The inline branch as the specification words it: the payload is executed at once
  and the layer keeps the captured output, or the error text behind the marker
  \<^verbatim>\<open>Error: \<close>. The last argument is what \<open>execute\<close> returned for the payload. It
  is compared with \<open>init\<close> below.
\<close>

definition init_inline_spec :: "(error \<Rightarrow> string) \<Rightarrow> PythonLayer \<Rightarrow> string
    \<Rightarrow> (error + string) \<times> PythonPlugin \<times> string list
    \<Rightarrow> (error + unit) \<times> PythonLayer \<times> PythonPlugin \<times> string list" where
  "init_inline_spec message l pl executed =
     (case executed of
        (Inr out, p', console) \<Rightarrow>
          (Inr (), l\<lparr>payload := pl, layer_output := out, layer_initialized := True\<rparr>, p', console)
      | (Inl e, p', console) \<Rightarrow>
          (Inr (), l\<lparr>payload := pl, layer_output := ''Error: '' @ message e,
                     layer_initialized := True\<rparr>, p', console))"

text \<open>The draw of the blit, and the calls that would tear the blit pipeline down.\<close>

fun is_draw :: "call \<Rightarrow> bool" where
  "is_draw (Draw pass n i fv fi) = True"
| "is_draw c = False"

fun is_teardown :: "call \<Rightarrow> bool" where
  "is_teardown (RenderPipelineRelease h) = True"
| "is_teardown (SamplerRelease h) = True"
| "is_teardown c = False"

section \<open>Auxiliary facts\<close>



lemma c_str_no_nul: "CHR 0x00 \<notin> set s \<Longrightarrow> c_str s = s"
  unfolding c_str_def by (induction s) auto

lemma c_str_hi: "c_str ''hi'' = ''hi''"
  by (simp add: c_str_def)

lemma c_str_print42: "c_str prog_print42 = prog_print42"
  by (simp add: c_str_def prog_print42_def)

text \<open>The encoder on two, three and four bytes, and on a lone surrogate.\<close>

lemma utf8_multibyte:
  "utf8 [0xE9] = Some [CHR 0xC3, CHR 0xA9]"
  "utf8 [0x20AC] = Some [CHR 0xE2, CHR 0x82, CHR 0xAC]"
  "utf8 [0x1F600] = Some [CHR 0xF0, CHR 0x9F, CHR 0x98, CHR 0x80]"
  "utf8 [0xDC80, 10] = None"
  by (simp_all add: utf8_char_def char_of_def bit_Suc_0_iff)

text \<open>What \<open>execute\<close> does when the run raises, in general.\<close>

lemma execute_on_raise:
  assumes "py_initialized p" and "imports_sys (main_dict p)" and "imports_io (main_dict p)"
    and "observe (main_dict p) (c_str C) = Some oc" and "raised oc = Some trace"
  shows "execute p C = Returns (Inl (Error ''Python execution error: '' None),
           p\<lparr>main_dict := advance (main_dict p) (c_str C)\<rparr>, direct oc @ [trace])"
  using assms by (simp add: execute_def Let_def)

text \<open>What \<open>execute\<close> does when the run returns a result and its text reads back.\<close>

lemma execute_on_result:
  assumes "py_initialized p" and "imports_sys (main_dict p)" and "imports_io (main_dict p)"
    and "observe (main_dict p) (c_str C) = Some oc"
    and "raised oc = None" and "sink_open oc"
    and "utf8 (written oc) = Some bytes" and "CHR 0x00 \<notin> set bytes"
  shows "execute p C = Returns (Inr bytes, p\<lparr>main_dict := advance (main_dict p) (c_str C)\<rparr>, direct oc)"
proof -
  have "c_str bytes = bytes"
    using assms(8) by (rule c_str_no_nul)
  with assms(1-7) show ?thesis
    by (simp add: execute_def Let_def)
qed

text \<open>The scripted interpreter at the programs it knows.\<close>

lemmas prog_defs = prog_print42_def prog_both_streams_def prog_os_write_def
  prog_print_then_raise_def prog_surrogate_def prog_loop_def prog_assign_hi_def

lemma execute_hi:
  "execute plugin0 ''hi'' = Returns (Inl (Error ''Python execution error: '' None), plugin0, [trace_hi])"
  by (simp add: execute_def plugin0_def c_str_def cpython_says_def silent_def prog_defs)

lemma execute_print42: "execute plugin0 prog_print42 = Returns (Inr ''42\<newline>'', plugin0, [])"
  by (simp add: execute_def plugin0_def c_str_def cpython_says_def silent_def prog_defs
        written_def utf8_char_def char_of_def bit_Suc_0_iff)

lemma execute_empty: "execute plugin0 [] = Returns (Inr [], plugin0, [])"
  by (simp add: execute_def plugin0_def c_str_def cpython_says_def silent_def prog_defs written_def)

lemma execute_loop: "execute plugin0 prog_loop = Hangs"
  by (simp add: execute_def plugin0_def c_str_def cpython_says_def prog_defs)

text \<open>Printing a lone surrogate ends the process inside \<open>execute\<close>.\<close>

lemma execute_surrogate: "execute plugin0 prog_surrogate = Crashes"
  by (simp add: execute_def plugin0_def c_str_def cpython_says_def silent_def prog_defs
        written_def utf8_char_def)

lemma execute_hi_assigned: "execute plugin_hi ''hi'' = Returns (Inr [], plugin_hi, [])"
  by (simp add: execute_def plugin_hi_def plugin0_def c_str_def cpython_says_def silent_def
        prog_defs written_def)

lemma execute_off:
  "execute plugin_off code = Returns (Inl (Error ''Python not initialized'' None), plugin_off, [])"
  by (simp add: execute_def plugin_off_def)

lemma mentions_open_failure: "mentions path (Error (m @ path) None)"
  by (simp add: mentions_def)


lemma blit_no_view: "render_texture_view gpu = None \<Longrightarrow> blitRenderTexture gpu l = (False, l, [])"
  by (simp add: blitRenderTexture_def)

lemma createBlitPipeline_no_draw:
  "filter is_draw (snd (snd (createBlitPipeline gpu l))) = []"
  by (cases "new_sampler gpu"; cases "new_shader_module gpu"; cases "new_render_pipeline gpu")
     (simp_all add: createBlitPipeline_def Let_def)

lemma blit_creation_failure:
  assumes "new_bind_group gpu = None \<or> new_command_encoder gpu = None \<or>
           current_texture_view gpu = None \<or> new_render_pass gpu = None"
  shows "\<not> fst (blitRenderTexture gpu l) \<and> filter is_draw (snd (snd (blitRenderTexture gpu l))) = []"
proof (cases "render_texture_view gpu")
  case None
  then show ?thesis by (simp add: blit_no_view)
next
  case (Some v)
  obtain ok l1 t1 where st:
    "(if \<not> blit_initialized l then createBlitPipeline gpu l else (True, l, [])) = (ok, l1, t1)"
    using prod_cases3 by blast
  have nd: "filter is_draw t1 = []"
    using createBlitPipeline_no_draw [of gpu l] st by (cases "blit_initialized l") auto
  have rel: "filter is_draw (case blit_bind_group l1 of None \<Rightarrow> [] | Some h \<Rightarrow> [BindGroupRelease h]) = []"
    by (cases "blit_bind_group l1") simp_all
  show ?thesis
  proof (cases ok)
    case False
    then show ?thesis
      unfolding blitRenderTexture_def st using Some nd by simp
  next
    case True
    show ?thesis
      unfolding blitRenderTexture_def st using assms Some nd rel True
      by (cases "new_bind_group gpu"; cases "new_command_encoder gpu";
          cases "current_texture_view gpu"; cases "new_render_pass gpu")
         (simp_all add: Let_def)
  qed
qed

lemma blit_keeps_pipeline:
  assumes "blit_initialized l"
  shows "blit_initialized (fst (snd (blitRenderTexture gpu l))) \<and>
         blit_pipeline (fst (snd (blitRenderTexture gpu l))) = blit_pipeline l \<and>
         blit_sampler (fst (snd (blitRenderTexture gpu l))) = blit_sampler l \<and>
         filter is_teardown (snd (snd (blitRenderTexture gpu l))) = []"
proof -
  have rel: "filter is_teardown (case blit_bind_group l of None \<Rightarrow> [] | Some h \<Rightarrow> [BindGroupRelease h]) = []"
    by (cases "blit_bind_group l") simp_all
  have fin: "filter is_teardown
      (case finished_commands gpu of None \<Rightarrow> [] | Some cmd \<Rightarrow> [QueueSubmit cmd, CommandBufferRelease cmd]) = []"
    by (cases "finished_commands gpu") simp_all
  show ?thesis
    using assms rel fin
    by (cases "render_texture_view gpu"; cases "new_bind_group gpu"; cases "new_command_encoder gpu";
        cases "current_texture_view gpu"; cases "new_render_pass gpu")
       (simp_all add: blitRenderTexture_def Let_def)
qed

lemma blit_succeeds:
  assumes "blit_initialized l" and "render_texture_view gpu \<noteq> None" and "new_bind_group gpu \<noteq> None"
    and "new_command_encoder gpu \<noteq> None" and "current_texture_view gpu \<noteq> None"
    and "new_render_pass gpu \<noteq> None"
  shows "fst (blitRenderTexture gpu l) \<and> filter is_draw (snd (snd (blitRenderTexture gpu l))) \<noteq> []"
proof -
  from assms obtain v bg enc sv pass where eqs: "render_texture_view gpu = Some v"
    "new_bind_group gpu = Some bg" "new_command_encoder gpu = Some enc"
    "current_texture_view gpu = Some sv" "new_render_pass gpu = Some pass"
    by auto
  show ?thesis
    using assms(1) by (simp add: blitRenderTexture_def Let_def eqs)
qed

section \<open>The claims\<close>

subsection \<open>C1: rendering a failed or invisible layer\<close>

text \<open>
  Claim C1 as stated, that \<^verbatim>\<open>render\<close> on a layer whose \<^verbatim>\<open>_failed\<close> flag is set
  returns success, does not hold: a failed layer gets the error
  \<^verbatim>\<open>PythonLayer already failed\<close>.
\<close>

theorem render_failed_counterexample:
  "failed (layer0\<lparr>failed := True\<rparr>) \<and>
   fst (render py_idle gpu_idle (layer0\<lparr>failed := True\<rparr>)) = Inl (Error ''PythonLayer already failed'' None) \<and>
   fst (render py_idle gpu_idle (layer0\<lparr>failed := True\<rparr>)) \<noteq> Inr ()"
  by (simp add: render_def layer0_def)

text \<open>
  Claim C1, amended: for every layer whose \<^verbatim>\<open>_failed\<close> flag is true,
  \<^verbatim>\<open>render\<close> returns the error \<^verbatim>\<open>PythonLayer already failed\<close>, changes nothing in
  the layer and makes no call; for a layer that has not failed and is invisible it
  returns success, again without any change or call.
\<close>

theorem render_failed_or_invisible:
  "(failed l \<longrightarrow> render py gpu l = (Inl (Error ''PythonLayer already failed'' None), l, [])) \<and>
   (\<not> failed l \<and> \<not> visible l \<longrightarrow> render py gpu l = (Inr (), l, []))"
  by (simp add: render_def)

theorem render_failed_or_invisible_witness:
  "failed (layer0\<lparr>failed := True\<rparr>) \<and>
   render py_idle gpu_idle (layer0\<lparr>failed := True\<rparr>)
     = (Inl (Error ''PythonLayer already failed'' None), layer0\<lparr>failed := True\<rparr>, []) \<and>
   \<not> failed (layer0\<lparr>visible := False\<rparr>) \<and> \<not> visible (layer0\<lparr>visible := False\<rparr>) \<and>
   render py_idle gpu_idle (layer0\<lparr>visible := False\<rparr>) = (Inr (), layer0\<lparr>visible := False\<rparr>, [])"
  using render_failed_or_invisible [of "layer0\<lparr>failed := True\<rparr>" py_idle gpu_idle]
        render_failed_or_invisible [of "layer0\<lparr>visible := False\<rparr>" py_idle gpu_idle]
  by (simp add: layer0_def)

subsection \<open>C2: what \<^verbatim>\<open>execute\<close> returns for code that does not raise\<close>




subsection \<open>C3: what \<^verbatim>\<open>execute\<close> returns for code that raises\<close>

text \<open>
  Claim C3 says that the error \<^verbatim>\<open>execute\<close> returns for code that raises carries
  the output captured before the failure, and the code builds the error text from
  \<^verbatim>\<open>output\<close> to that end. But the sink is read back while the exception of the run
  is still pending, so the read-back gives nothing: whenever the run raises, the
  error text is the bare prefix \<^verbatim>\<open>Python execution error: \<close>, whatever the code
  had written, and the console gets the trace.
\<close>

theorem execute_error_text_is_bare:
  assumes "py_initialized p" and "imports_sys (main_dict p)" and "imports_io (main_dict p)"
    and "observe (main_dict p) (c_str C) = Some oc" and "raised oc = Some trace"
  shows "execute p C = Returns (Inl (Error ''Python execution error: '' None),
           p\<lparr>main_dict := advance (main_dict p) (c_str C)\<rparr>, direct oc @ [trace])"
  using assms by (rule execute_on_raise)

text \<open>
  The program that prints \<^verbatim>\<open>a\<close> and then raises \<^verbatim>\<open>ValueError\<close>: the line it
  printed is in the sink and not in the error.
\<close>

theorem execute_error_text_is_bare_witness:
  "py_initialized plugin0 \<and> imports_sys (main_dict plugin0) \<and> imports_io (main_dict plugin0) \<and>
   observe (main_dict plugin0) (c_str prog_print_then_raise)
     = Some (silent\<lparr>writes := [(Stdout, [97]), (Stdout, [10])], raised := Some trace_value_error\<rparr>) \<and>
   raised (silent\<lparr>writes := [(Stdout, [97]), (Stdout, [10])], raised := Some trace_value_error\<rparr>)
     = Some trace_value_error \<and>
   utf8 (written (silent\<lparr>writes := [(Stdout, [97]), (Stdout, [10])], raised := Some trace_value_error\<rparr>))
     = Some ''a\<newline>'' \<and>
   execute plugin0 prog_print_then_raise
     = Returns (Inl (Error ''Python execution error: '' None), plugin0, [trace_value_error])"
proof -
  let ?oc = "silent\<lparr>writes := [(Stdout, [97]), (Stdout, [10])], raised := Some trace_value_error\<rparr>"
  have h: "py_initialized plugin0" "imports_sys (main_dict plugin0)" "imports_io (main_dict plugin0)"
    by (simp_all add: plugin0_def)
  have obs: "observe (main_dict plugin0) (c_str prog_print_then_raise) = Some ?oc"
    by (simp add: plugin0_def c_str_def cpython_says_def prog_defs)
  have oc: "raised ?oc = Some trace_value_error" "utf8 (written ?oc) = Some ''a\<newline>''" "direct ?oc = []"
    by (simp_all add: silent_def written_def utf8_char_def char_of_def bit_Suc_0_iff)
  have stay: "plugin0\<lparr>main_dict := advance (main_dict plugin0) (c_str prog_print_then_raise)\<rparr> = plugin0"
    by (simp add: plugin0_def c_str_def prog_defs)
  show ?thesis
    using execute_error_text_is_bare [OF h obs oc(1)] h obs oc
    by (simp add: stay)
qed

subsection \<open>C4: the input command buffer\<close>

text \<open>
  Claim C4 as stated, that \<^verbatim>\<open>onChar\<close> appends a code point if and only if it is
  printable ASCII, does not hold: the bell character, code 7, is not printable and
  is appended.
\<close>

theorem onChar_control_counterexample:
  "\<not> printable_ascii 7 \<and> onChar layer0 7 = (True, layer0\<lparr>input_buffer := [CHR 0x07]\<rparr>)"
  by (simp add: printable_ascii_def onChar_def layer0_def char_of_def bit_Suc_0_iff)

text \<open>
  Claim C4, amended: \<^verbatim>\<open>onChar\<close> appends the code point to the input command
  buffer (and reports it consumed) if and only if it is below 128, which includes
  every printable ASCII character and also the control characters; any other code
  point leaves the layer as it is. \<^verbatim>\<open>onKey\<close> with Backspace on key press removes
  the last character of a non-empty buffer.
\<close>

theorem onChar_appends_ascii:
  "(input_buffer (snd (onChar l cp)) = input_buffer l @ [char_of (unat cp)] \<longleftrightarrow> cp < 128) \<and>
   (fst (onChar l cp) \<longleftrightarrow> cp < 128) \<and>
   (\<not> cp < 128 \<longrightarrow> snd (onChar l cp) = l) \<and>
   (printable_ascii cp \<longrightarrow> cp < 128) \<and>
   (input_buffer l \<noteq> [] \<longrightarrow>
      onKey message p l 259 scancode 1 mods
        = Returns (True, l\<lparr>input_buffer := butlast (input_buffer l)\<rparr>, p, []))"
proof -
  have "printable_ascii cp \<longrightarrow> cp < 128"
    by (simp add: printable_ascii_def word_le_nat_alt word_less_nat_alt)
  then show ?thesis
    by (simp add: onChar_def onKey_def)
qed

theorem onChar_appends_ascii_witness:
  "printable_ascii 104 \<and> input_buffer (layer0\<lparr>input_buffer := ''ab''\<rparr>) \<noteq> [] \<and>
   input_buffer (snd (onChar (layer0\<lparr>input_buffer := ''ab''\<rparr>) 104)) = ''abh'' \<and>
   onKey error_text plugin0 (layer0\<lparr>input_buffer := ''ab''\<rparr>) 259 0 1 0
     = Returns (True, layer0\<lparr>input_buffer := ''a''\<rparr>, plugin0, []) \<and>
   \<not> (200 :: 32 word) < 128 \<and>
   snd (onChar (layer0\<lparr>input_buffer := ''ab''\<rparr>) 200) = layer0\<lparr>input_buffer := ''ab''\<rparr>"
  using onChar_appends_ascii [of "layer0\<lparr>input_buffer := ''ab''\<rparr>" 104 error_text plugin0 0 0]
        onChar_appends_ascii [of "layer0\<lparr>input_buffer := ''ab''\<rparr>" 200 error_text plugin0 0 0]
  by (simp add: printable_ascii_def layer0_def char_of_def bit_Suc_0_iff)

subsection \<open>C5: \<^verbatim>\<open>runFile\<close>\<close>

text \<open>
  Claim C5 as stated, that every failure of \<^verbatim>\<open>runFile\<close> carries the path, does
  not hold: when the script \<^verbatim>\<open>a.py\<close> raises, no message of the returned error
  contains \<^verbatim>\<open>a.py\<close>.
\<close>

theorem runFile_execute_failure_counterexample:
  "fs_script ''a.py'' = Some ''hi'' \<and>
   runFile fs_script plugin0 ''a.py''
     = Returns (Inl (Error ''Failed to execute Python file'' (Some (Error ''Python execution error: '' None))),
                plugin0, [trace_hi]) \<and>
   \<not> mentions ''a.py'' (Error ''Failed to execute Python file'' (Some (Error ''Python execution error: '' None)))"
  by (simp add: runFile_def fs_script_def execute_hi mentions_def sublist_Cons_right)

text \<open>
  Claim C5, amended: \<^verbatim>\<open>runFile(path)\<close> reads the content of the file and
  delegates to \<^verbatim>\<open>execute\<close> (the interpreter and the console afterwards are those
  of \<^verbatim>\<open>execute\<close> on the content, and where \<^verbatim>\<open>execute\<close> does not come back,
  \<^verbatim>\<open>runFile\<close> does not either). A file that cannot be opened gives an error whose
  message ends with the path; a failing \<^verbatim>\<open>execute\<close> gives the error
  \<^verbatim>\<open>Failed to execute Python file\<close> with the error of \<^verbatim>\<open>execute\<close> as its cause,
  without the path; a successful one gives success.
\<close>

theorem runFile_delegates:
  "(fs path = None \<longrightarrow>
      runFile fs p path = Returns (Inl (Error (''Failed to open Python file: '' @ path) None), p, []) \<and>
      mentions path (Error (''Failed to open Python file: '' @ path) None)) \<and>
   (fs path = Some content \<longrightarrow>
      (\<forall>e p' console. execute p content = Returns (Inl e, p', console) \<longrightarrow>
         runFile fs p path = Returns (Inl (Error ''Failed to execute Python file'' (Some e)), p', console)) \<and>
      (\<forall>out p' console. execute p content = Returns (Inr out, p', console) \<longrightarrow>
         runFile fs p path = Returns (Inr (), p', console)) \<and>
      (execute p content = Crashes \<longrightarrow> runFile fs p path = Crashes) \<and>
      (execute p content = Hangs \<longrightarrow> runFile fs p path = Hangs))"
  using mentions_open_failure [of path "''Failed to open Python file: ''"]
  by (simp add: runFile_def)

theorem runFile_delegates_witness:
  "fs_script ''b.py'' = None \<and>
   runFile fs_script plugin0 ''b.py''
     = Returns (Inl (Error ''Failed to open Python file: b.py'' None), plugin0, []) \<and>
   fs_script ''a.py'' = Some ''hi'' \<and>
   execute plugin0 ''hi'' = Returns (Inl (Error ''Python execution error: '' None), plugin0, [trace_hi]) \<and>
   runFile fs_script plugin0 ''a.py''
     = Returns (Inl (Error ''Failed to execute Python file'' (Some (Error ''Python execution error: '' None))),
                plugin0, [trace_hi]) \<and>
   fs_script_loop ''loop.py'' = Some prog_loop \<and> execute plugin0 prog_loop = Hangs \<and>
   runFile fs_script_loop plugin0 ''loop.py'' = Hangs"
  using runFile_delegates [of fs_script "''b.py''" plugin0 "''hi''"]
        runFile_delegates [of fs_script "''a.py''" plugin0 "''hi''"]
        runFile_delegates [of fs_script_loop "''loop.py''" plugin0 prog_loop]
  by (simp add: fs_script_def fs_script_loop_def execute_hi execute_loop)

subsection \<open>C6: a payload that is not a readable file\<close>

text \<open>
  Claim C6 as stated, for every payload that does not name a readable file, does
  not hold at the empty payload, which \<^verbatim>\<open>init\<close> does not execute at all: with the
  interpreter not initialized the layer's output stays empty where executing the
  payload would record \<^verbatim>\<open>Error: Python not initialized\<close>, and a layer that already
  holds output keeps it.
\<close>

theorem init_empty_payload_counterexample:
  "fs_empty [] = None \<and>
   execute plugin_off [] = Returns (Inl (Error ''Python not initialized'' None), plugin_off, []) \<and>
   init error_text fs_empty plugin_off layer0 []
     = Returns (Inr (), layer0\<lparr>layer_initialized := True\<rparr>, plugin_off, []) \<and>
   init_inline_spec error_text layer0 [] (Inl (Error ''Python not initialized'' None), plugin_off, [])
     = (Inr (), layer0\<lparr>layer_output := ''Error: Python not initialized'', layer_initialized := True\<rparr>,
        plugin_off, []) \<and>
   init error_text fs_empty plugin_off layer0 []
     \<noteq> Returns (init_inline_spec error_text layer0 []
                  (Inl (Error ''Python not initialized'' None), plugin_off, [])) \<and>
   execute plugin0 [] = Returns (Inr [], plugin0, []) \<and>
   init error_text fs_empty plugin0 (layer0\<lparr>layer_output := ''old''\<rparr>) []
     = Returns (Inr (), layer0\<lparr>layer_output := ''old'', layer_initialized := True\<rparr>, plugin0, []) \<and>
   init_inline_spec error_text (layer0\<lparr>layer_output := ''old''\<rparr>) [] (Inr [], plugin0, [])
     = (Inr (), layer0\<lparr>layer_initialized := True\<rparr>, plugin0, [])"
proof -
  have a: "init error_text fs_empty plugin_off layer0 []
     = Returns (Inr (), layer0\<lparr>layer_initialized := True\<rparr>, plugin_off, [])"
    by (simp add: init_def layer0_def)
  have b: "init_inline_spec error_text layer0 [] (Inl (Error ''Python not initialized'' None), plugin_off, [])
     = (Inr (), layer0\<lparr>layer_output := ''Error: Python not initialized'', layer_initialized := True\<rparr>,
        plugin_off, [])"
    by (simp add: init_inline_spec_def layer0_def)
  have c: "layer0\<lparr>layer_initialized := True\<rparr>
     \<noteq> layer0\<lparr>layer_output := ''Error: Python not initialized'', layer_initialized := True\<rparr>"
    by (simp add: layer0_def)
  have d: "init error_text fs_empty plugin0 (layer0\<lparr>layer_output := ''old''\<rparr>) []
     = Returns (Inr (), layer0\<lparr>layer_output := ''old'', layer_initialized := True\<rparr>, plugin0, [])"
    by (simp add: init_def layer0_def)
  have e: "init_inline_spec error_text (layer0\<lparr>layer_output := ''old''\<rparr>) [] (Inr [], plugin0, [])
     = (Inr (), layer0\<lparr>layer_initialized := True\<rparr>, plugin0, [])"
    by (simp add: init_inline_spec_def layer0_def)
  show ?thesis
    unfolding a b d e using c by (simp add: fs_empty_def execute_off execute_empty)
qed

text \<open>
  Claim C6, amended: for every non-empty payload that does not name a readable
  file, \<^verbatim>\<open>init\<close> executes the payload as inline code: when that execution returns,
  \<^verbatim>\<open>init\<close> returns success and keeps the captured output, or the error text behind
  \<^verbatim>\<open>Error: \<close>, and when the run never ends \<^verbatim>\<open>init\<close> does not return either (the
  empty payload is not executed). In particular, with an initialized interpreter
  that prints \<^verbatim>\<open>42\<close> and a newline for the code \<^verbatim>\<open>x = 21\<close>, \<^verbatim>\<open>print(x*2)\<close> on
  two lines, \<^verbatim>\<open>init\<close> with that code returns success and ends with that line as
  \<^verbatim>\<open>_output\<close>.
\<close>

theorem init_inline_payload:
  assumes "pl \<noteq> []" and "fs pl = None"
  shows "(\<forall>executed. execute p pl = Returns executed \<longrightarrow>
            init message fs p l pl = Returns (init_inline_spec message l pl executed) \<and>
            fst (init_inline_spec message l pl executed) = Inr ()) \<and>
         (execute p pl = Hangs \<longrightarrow> init message fs p l pl = Hangs) \<and>
         (pl = prog_print42 \<and> py_initialized p \<and> imports_sys (main_dict p) \<and> imports_io (main_dict p) \<and>
          observe (main_dict p) prog_print42 = Some oc \<and> raised oc = None \<and> sink_open oc \<and>
          written oc = [52, 50, 10]
          \<longrightarrow> init message fs p l pl
                = Returns (Inr (), l\<lparr>payload := pl, layer_output := ''42\<newline>'', layer_initialized := True\<rparr>,
                           p\<lparr>main_dict := advance (main_dict p) prog_print42\<rparr>, direct oc))"
proof (intro conjI allI impI)
  fix executed
  assume ex: "execute p pl = Returns executed"
  obtain r p' console where x: "executed = (r, p', console)"
    using prod_cases3 by blast
  show "init message fs p l pl = Returns (init_inline_spec message l pl executed)"
    using assms ex unfolding x by (cases r) (simp_all add: init_def init_inline_spec_def)
  show "fst (init_inline_spec message l pl executed) = Inr ()"
    unfolding x by (cases r) (simp_all add: init_inline_spec_def)
next
  assume "execute p pl = Hangs"
  then show "init message fs p l pl = Hangs"
    using assms by (simp add: init_def)
next
  assume a: "pl = prog_print42 \<and> py_initialized p \<and> imports_sys (main_dict p) \<and> imports_io (main_dict p) \<and>
          observe (main_dict p) prog_print42 = Some oc \<and> raised oc = None \<and> sink_open oc \<and>
          written oc = [52, 50, 10]"
  then have u: "utf8 (written oc) = Some ''42\<newline>''"
    by (simp add: utf8_char_def char_of_def bit_Suc_0_iff)
  have "execute p prog_print42
      = Returns (Inr ''42\<newline>'', p\<lparr>main_dict := advance (main_dict p) (c_str prog_print42)\<rparr>, direct oc)"
    using a u by (intro execute_on_result) (simp_all add: c_str_print42)
  with a have "execute p pl = Returns (Inr ''42\<newline>'', p\<lparr>main_dict := advance (main_dict p) prog_print42\<rparr>, direct oc)"
    by (simp add: c_str_print42)
  then show "init message fs p l pl
                = Returns (Inr (), l\<lparr>payload := pl, layer_output := ''42\<newline>'', layer_initialized := True\<rparr>,
                           p\<lparr>main_dict := advance (main_dict p) prog_print42\<rparr>, direct oc)"
    using assms by (simp add: init_def)
qed

theorem init_inline_payload_witness:
  "prog_print42 \<noteq> [] \<and> fs_empty prog_print42 = None \<and>
   py_initialized plugin0 \<and> imports_sys (main_dict plugin0) \<and> imports_io (main_dict plugin0) \<and>
   observe (main_dict plugin0) prog_print42 = Some (silent\<lparr>writes := [(Stdout, [52, 50]), (Stdout, [10])]\<rparr>) \<and>
   raised (silent\<lparr>writes := [(Stdout, [52, 50]), (Stdout, [10])]\<rparr>) = None \<and>
   sink_open (silent\<lparr>writes := [(Stdout, [52, 50]), (Stdout, [10])]\<rparr>) \<and>
   written (silent\<lparr>writes := [(Stdout, [52, 50]), (Stdout, [10])]\<rparr>) = [52, 50, 10] \<and>
   execute plugin0 prog_print42 = Returns (Inr ''42\<newline>'', plugin0, []) \<and>
   init error_text fs_empty plugin0 layer0 prog_print42
     = Returns (Inr (), layer0\<lparr>payload := prog_print42, layer_output := ''42\<newline>'',
                              layer_initialized := True\<rparr>, plugin0, []) \<and>
   prog_loop \<noteq> [] \<and> fs_empty prog_loop = None \<and> execute plugin0 prog_loop = Hangs \<and>
   init error_text fs_empty plugin0 layer0 prog_loop = Hangs"
proof -
  let ?oc = "silent\<lparr>writes := [(Stdout, [52, 50]), (Stdout, [10])]\<rparr>"
  have h: "prog_print42 \<noteq> []" "fs_empty prog_print42 = None" "prog_loop \<noteq> []" "fs_empty prog_loop = None"
    by (simp_all add: prog_defs fs_empty_def)
  have o: "py_initialized plugin0" "imports_sys (main_dict plugin0)" "imports_io (main_dict plugin0)"
    "observe (main_dict plugin0) prog_print42 = Some ?oc"
    "raised ?oc = None" "sink_open ?oc" "written ?oc = [52, 50, 10]" "direct ?oc = []"
    by (simp_all add: plugin0_def cpython_says_def silent_def written_def)
  have stay: "plugin0\<lparr>main_dict := advance (main_dict plugin0) prog_print42\<rparr> = plugin0"
    by (simp add: plugin0_def prog_defs)
  show ?thesis
    using init_inline_payload [where pl = prog_print42 and fs = fs_empty and message = error_text
          and p = plugin0 and l = layer0 and oc = ?oc]
          init_inline_payload [where pl = prog_loop and fs = fs_empty and message = error_text
          and p = plugin0 and l = layer0 and oc = ?oc] h o
    by (simp add: execute_print42 execute_loop stay init_inline_spec_def)
qed

subsection \<open>C7: typing \<^verbatim>\<open>hi\<close> and pressing Enter\<close>

text \<open>
  Claim C7: from a layer with an empty input buffer, \<^verbatim>\<open>onChar('h')\<close>,
  \<^verbatim>\<open>onChar('i')\<close> and \<^verbatim>\<open>onKey\<close> with Enter pressed execute \<^verbatim>\<open>hi\<close> on the
  shared interpreter, whatever the interpreter does with it: the call ends the way
  \<^verbatim>\<open>execute\<close> on \<^verbatim>\<open>hi\<close> ends, and when that returns, the key is consumed, the
  interpreter and the console are those \<^verbatim>\<open>execute\<close> left, the output log gains the
  prompt line for \<^verbatim>\<open>hi\<close> followed by the output or by \<^verbatim>\<open>Error: \<close> and the message,
  and the input buffer is empty. When \<^verbatim>\<open>hi\<close> raises (the name is undefined), the
  entry starts with the prompt line followed by \<^verbatim>\<open>Error:\<close>.
\<close>

theorem repl_hi_enter:
  assumes "input_buffer l = []"
  shows "input_buffer (snd (onChar (snd (onChar l 104)) 105)) = ''hi'' \<and>
         (\<forall>out p' console. execute p ''hi'' = Returns (Inr out, p', console) \<longrightarrow>
            onKey message p (snd (onChar (snd (onChar l 104)) 105)) 257 scancode 1 mods
              = Returns (True, l\<lparr>layer_output := layer_output l @ ''>>> hi\<newline>'' @ out,
                               input_buffer := []\<rparr>, p', console)) \<and>
         (\<forall>e p' console. execute p ''hi'' = Returns (Inl e, p', console) \<longrightarrow>
            onKey message p (snd (onChar (snd (onChar l 104)) 105)) 257 scancode 1 mods
              = Returns (True, l\<lparr>layer_output := layer_output l @ ''>>> hi\<newline>Error: '' @ message e @ ''\<newline>'',
                               input_buffer := []\<rparr>, p', console)) \<and>
         (execute p ''hi'' = Crashes \<longrightarrow>
            onKey message p (snd (onChar (snd (onChar l 104)) 105)) 257 scancode 1 mods = Crashes) \<and>
         (execute p ''hi'' = Hangs \<longrightarrow>
            onKey message p (snd (onChar (snd (onChar l 104)) 105)) 257 scancode 1 mods = Hangs) \<and>
         (py_initialized p \<and> imports_sys (main_dict p) \<and> imports_io (main_dict p) \<and>
          observe (main_dict p) ''hi'' = Some oc \<and> raised oc = Some trace \<longrightarrow>
            (\<exists>rest.
               onKey message p (snd (onChar (snd (onChar l 104)) 105)) 257 scancode 1 mods
                 = Returns (True, l\<lparr>layer_output := layer_output l @ ''>>> hi\<newline>Error:'' @ rest,
                                  input_buffer := []\<rparr>,
                            p\<lparr>main_dict := advance (main_dict p) ''hi''\<rparr>, direct oc @ [trace])))"
proof -
  let ?l2 = "snd (onChar (snd (onChar l 104)) 105)"
  have l2: "?l2 = l\<lparr>input_buffer := ''hi''\<rparr>"
    using assms by (simp add: onChar_def char_of_def bit_Suc_0_iff)
  have buf: "input_buffer ?l2 = ''hi''"
    by (simp add: l2)
  have ok: "onKey message p ?l2 257 scancode 1 mods
              = Returns (True, l\<lparr>layer_output := layer_output l @ ''>>> hi\<newline>'' @ out,
                               input_buffer := []\<rparr>, p', console)"
    if "execute p ''hi'' = Returns (Inr out, p', console)" for out p' console
    unfolding l2 using that by (simp add: onKey_def)
  have err: "onKey message p ?l2 257 scancode 1 mods
              = Returns (True, l\<lparr>layer_output := layer_output l @ ''>>> hi\<newline>Error: '' @ message e @ ''\<newline>'',
                               input_buffer := []\<rparr>, p', console)"
    if "execute p ''hi'' = Returns (Inl e, p', console)" for e p' console
    unfolding l2 using that by (simp add: onKey_def)
  have crash: "onKey message p ?l2 257 scancode 1 mods = Crashes" if "execute p ''hi'' = Crashes"
    unfolding l2 using that by (simp add: onKey_def)
  have hang: "onKey message p ?l2 257 scancode 1 mods = Hangs" if "execute p ''hi'' = Hangs"
    unfolding l2 using that by (simp add: onKey_def)
  have undefined_name: "\<exists>rest.
               onKey message p ?l2 257 scancode 1 mods
                 = Returns (True, l\<lparr>layer_output := layer_output l @ ''>>> hi\<newline>Error:'' @ rest,
                                  input_buffer := []\<rparr>,
                            p\<lparr>main_dict := advance (main_dict p) ''hi''\<rparr>, direct oc @ [trace])"
    if a: "py_initialized p \<and> imports_sys (main_dict p) \<and> imports_io (main_dict p) \<and>
          observe (main_dict p) ''hi'' = Some oc \<and> raised oc = Some trace"
  proof -
    have "execute p ''hi'' = Returns (Inl (Error ''Python execution error: '' None),
           p\<lparr>main_dict := advance (main_dict p) ''hi''\<rparr>, direct oc @ [trace])"
      using execute_on_raise [of p "''hi''" oc trace] a by (simp add: c_str_hi)
    from err [OF this] show ?thesis
      by (intro exI [of _ "'' '' @ message (Error ''Python execution error: '' None) @ ''\<newline>''"]) simp
  qed
  show ?thesis
    using buf ok err crash hang undefined_name by blast
qed

theorem repl_hi_enter_witness:
  "input_buffer layer0 = [] \<and>
   snd (onChar (snd (onChar layer0 104)) 105) = layer0\<lparr>input_buffer := ''hi''\<rparr> \<and>
   py_initialized plugin0 \<and> imports_sys (main_dict plugin0) \<and> imports_io (main_dict plugin0) \<and>
   observe (main_dict plugin0) ''hi'' = Some (silent\<lparr>raised := Some trace_hi\<rparr>) \<and>
   raised (silent\<lparr>raised := Some trace_hi\<rparr>) = Some trace_hi \<and>
   execute plugin0 ''hi'' = Returns (Inl (Error ''Python execution error: '' None), plugin0, [trace_hi]) \<and>
   onKey error_text plugin0 (snd (onChar (snd (onChar layer0 104)) 105)) 257 0 1 0
     = Returns (True, layer0\<lparr>layer_output := ''>>> hi\<newline>Error: Python execution error: \<newline>''\<rparr>,
                plugin0, [trace_hi]) \<and>
   execute plugin_hi ''hi'' = Returns (Inr [], plugin_hi, []) \<and>
   onKey error_text plugin_hi (snd (onChar (snd (onChar layer0 104)) 105)) 257 0 1 0
     = Returns (True, layer0\<lparr>layer_output := ''>>> hi\<newline>''\<rparr>, plugin_hi, [])"
proof -
  have h: "input_buffer layer0 = []"
    by (simp add: layer0_def)
  have l2: "snd (onChar (snd (onChar layer0 104)) 105) = layer0\<lparr>input_buffer := ''hi''\<rparr>"
    by (simp add: onChar_def layer0_def char_of_def bit_Suc_0_iff)
  have o: "py_initialized plugin0" "imports_sys (main_dict plugin0)" "imports_io (main_dict plugin0)"
    "observe (main_dict plugin0) ''hi'' = Some (silent\<lparr>raised := Some trace_hi\<rparr>)"
    "raised (silent\<lparr>raised := Some trace_hi\<rparr>) = Some trace_hi"
    by (simp_all add: plugin0_def cpython_says_def prog_defs)
  have key: "onKey error_text plugin0 (layer0\<lparr>input_buffer := ''hi''\<rparr>) 257 0 1 0
     = Returns (True, layer0\<lparr>layer_output := ''>>> hi\<newline>Error: Python execution error: \<newline>''\<rparr>,
                plugin0, [trace_hi])"
    "onKey error_text plugin_hi (layer0\<lparr>input_buffer := ''hi''\<rparr>) 257 0 1 0
     = Returns (True, layer0\<lparr>layer_output := ''>>> hi\<newline>''\<rparr>, plugin_hi, [])"
    by (simp_all add: onKey_def execute_hi execute_hi_assigned layer0_def)
  show ?thesis
    using repl_hi_enter [OF h, of plugin0 error_text 0 0 "silent\<lparr>raised := Some trace_hi\<rparr>" trace_hi]
          repl_hi_enter [OF h, of plugin_hi error_text 0 0 "silent\<lparr>raised := Some trace_hi\<rparr>" trace_hi]
          h o
    by (simp add: l2 execute_hi execute_hi_assigned key)
qed

subsection \<open>C8: disposing a layer twice\<close>

text \<open>
  Claim C8: \<^verbatim>\<open>dispose\<close> called twice on a layer returns success both times; the
  first call leaves the three blit handles null, so the second call releases no GPU
  object (it makes no call at all) and leaves the layer as the first call left it.
\<close>

theorem dispose_twice:
  "fst (dispose py1 l) = Inr () \<and>
   blit_bind_group (fst (snd (dispose py1 l))) = None \<and>
   blit_pipeline (fst (snd (dispose py1 l))) = None \<and>
   blit_sampler (fst (snd (dispose py1 l))) = None \<and>
   fst (dispose py2 (fst (snd (dispose py1 l)))) = Inr () \<and>
   snd (snd (dispose py2 (fst (snd (dispose py1 l))))) = [] \<and>
   fst (snd (dispose py2 (fst (snd (dispose py1 l))))) = fst (snd (dispose py1 l))"
  by (simp add: dispose_def Let_def)

subsection \<open>C9: a failed blit stays within its frame\<close>

text \<open>
  Claim C9: \<^verbatim>\<open>blitRenderTexture\<close> returns false, draws nothing and changes
  nothing when the off-screen view is null; when the bind group, the encoder, the
  surface view or the pass cannot be created it returns false without drawing; a
  blit pipeline and sampler that are already built stay in place and unreleased
  whatever the frame does, and a later frame in which the creations succeed returns
  true and draws.
\<close>

theorem blit_failure_is_per_frame:
  "(render_texture_view gpu = None \<longrightarrow> blitRenderTexture gpu l = (False, l, [])) \<and>
   (new_bind_group gpu = None \<or> new_command_encoder gpu = None \<or>
    current_texture_view gpu = None \<or> new_render_pass gpu = None \<longrightarrow>
      \<not> fst (blitRenderTexture gpu l) \<and> filter is_draw (snd (snd (blitRenderTexture gpu l))) = []) \<and>
   (blit_initialized l \<longrightarrow>
      blit_initialized (fst (snd (blitRenderTexture gpu l))) \<and>
      blit_pipeline (fst (snd (blitRenderTexture gpu l))) = blit_pipeline l \<and>
      blit_sampler (fst (snd (blitRenderTexture gpu l))) = blit_sampler l \<and>
      filter is_teardown (snd (snd (blitRenderTexture gpu l))) = []) \<and>
   (blit_initialized l \<and> render_texture_view later \<noteq> None \<and> new_bind_group later \<noteq> None \<and>
    new_command_encoder later \<noteq> None \<and> current_texture_view later \<noteq> None \<and>
    new_render_pass later \<noteq> None \<longrightarrow>
      fst (blitRenderTexture later (fst (snd (blitRenderTexture gpu l)))) \<and>
      filter is_draw (snd (snd (blitRenderTexture later (fst (snd (blitRenderTexture gpu l)))))) \<noteq> [])"
proof (intro conjI impI)
  assume "render_texture_view gpu = None"
  then show "blitRenderTexture gpu l = (False, l, [])" by (rule blit_no_view)
next
  assume f: "new_bind_group gpu = None \<or> new_command_encoder gpu = None \<or>
    current_texture_view gpu = None \<or> new_render_pass gpu = None"
  show "\<not> fst (blitRenderTexture gpu l)" using blit_creation_failure [OF f] by simp
  show "filter is_draw (snd (snd (blitRenderTexture gpu l))) = []"
    using blit_creation_failure [OF f] by simp
next
  assume i: "blit_initialized l"
  show "blit_initialized (fst (snd (blitRenderTexture gpu l)))"
    "blit_pipeline (fst (snd (blitRenderTexture gpu l))) = blit_pipeline l"
    "blit_sampler (fst (snd (blitRenderTexture gpu l))) = blit_sampler l"
    "filter is_teardown (snd (snd (blitRenderTexture gpu l))) = []"
    using blit_keeps_pipeline [OF i] by simp_all
next
  assume a: "blit_initialized l \<and> render_texture_view later \<noteq> None \<and> new_bind_group later \<noteq> None \<and>
    new_command_encoder later \<noteq> None \<and> current_texture_view later \<noteq> None \<and>
    new_render_pass later \<noteq> None"
  then have i': "blit_initialized (fst (snd (blitRenderTexture gpu l)))"
    using blit_keeps_pipeline by blast
  show "fst (blitRenderTexture later (fst (snd (blitRenderTexture gpu l))))"
    "filter is_draw (snd (snd (blitRenderTexture later (fst (snd (blitRenderTexture gpu l)))))) \<noteq> []"
    using blit_succeeds [OF i'] a by blast+
qed

theorem blit_failure_is_per_frame_witness:
  "new_command_encoder (gpu_ready\<lparr>new_command_encoder := None\<rparr>) = None \<and>
   blit_initialized layer_blitting \<and>
   render_texture_view gpu_ready \<noteq> None \<and> new_bind_group gpu_ready \<noteq> None \<and>
   new_command_encoder gpu_ready \<noteq> None \<and> current_texture_view gpu_ready \<noteq> None \<and>
   new_render_pass gpu_ready \<noteq> None \<and>
   blitRenderTexture (gpu_ready\<lparr>new_command_encoder := None\<rparr>) layer_blitting
     = (False, layer_blitting, [BindGroupRelease 7, BindGroupLayoutRelease (Some 6)]) \<and>
   fst (blitRenderTexture gpu_ready layer_blitting) \<and>
   render_texture_view gpu_idle = None \<and>
   blitRenderTexture gpu_idle layer_blitting = (False, layer_blitting, [])"
proof -
  have frame: "blitRenderTexture (gpu_ready\<lparr>new_command_encoder := None\<rparr>) layer_blitting
     = (False, layer_blitting, [BindGroupRelease 7, BindGroupLayoutRelease (Some 6)])"
    by (simp add: blitRenderTexture_def gpu_ready_def gpu_idle_def layer_blitting_def layer0_def)
  have h: "new_command_encoder (gpu_ready\<lparr>new_command_encoder := None\<rparr>) = None"
    "blit_initialized layer_blitting"
    "render_texture_view gpu_ready \<noteq> None" "new_bind_group gpu_ready \<noteq> None"
    "new_command_encoder gpu_ready \<noteq> None" "current_texture_view gpu_ready \<noteq> None"
    "new_render_pass gpu_ready \<noteq> None" "render_texture_view gpu_idle = None"
    by (simp_all add: gpu_ready_def gpu_idle_def layer_blitting_def)
  show ?thesis
    using blit_failure_is_per_frame [of "gpu_ready\<lparr>new_command_encoder := None\<rparr>" layer_blitting gpu_ready]
          blit_failure_is_per_frame [of gpu_idle layer_blitting gpu_ready] h
    by (simp add: frame)
qed

subsection \<open>C10: layer creation never fails\<close>




end
